theory Spec2Isabelle
  imports Main "HOL-Library.Word"
begin

unbundle bit_operations_syntax

section \<open>The in-memory file system of samples/memfs\<close>

text \<open>
  A shallow embedding of \<^verbatim>\<open>samples/memfs/memfs.go\<close>. The struct \<^verbatim>\<open>memFS\<close> is a
  record, the table \<^verbatim>\<open>inodes []*inode\<close> is a list of optional inodes (\<open>None\<close> is the
  nil pointer), every method takes the file system and returns the updated one, and a
  Go panic or a lock that is never granted is a value of type \<open>failure\<close> on the left of
  a sum. The error returned to the protocol layer (\<^verbatim>\<open>err\<close>) is an \<open>error option\<close>.

  Inode IDs, offsets and sizes are natural numbers: the table never holds anywhere near
  \<open>2 ^ 63\<close> slots, and the protocol layer passes only non-negative offsets and sizes.
  Link counts and mode bits are machine words, since \<^verbatim>\<open>Nlink--\<close> wraps around.
\<close>

subsection \<open>Types of the protocol layer\<close>

type_synonym InodeID = nat
type_synonym time = int
type_synonym byte = "8 word"
type_synonym FileMode = "32 word"

text \<open>
  Modelled from the spec: the constant \<^verbatim>\<open>fuseops.RootInodeID\<close> is declared outside
  the files at hand; the spec calls it a reserved constant below which all IDs are
  unused, and the kernel protocol fixes it to 1.
\<close>

definition RootInodeID :: InodeID where
  "RootInodeID = 1"

text \<open>The type bits of Go's \<^verbatim>\<open>os.FileMode\<close>: \<^verbatim>\<open>1 << 31\<close> and \<^verbatim>\<open>1 << 27\<close>.\<close>

definition ModeDir :: FileMode where
  "ModeDir = push_bit 31 1"

definition ModeSymlink :: FileMode where
  "ModeSymlink = push_bit 27 1"

text \<open>Go's \<^verbatim>\<open>time.Hour\<close> in nanoseconds, and the \<^verbatim>\<open>365 * 24 * time.Hour\<close> of the code.\<close>

definition Hour :: time where
  "Hour = 3600 * 1000000000"

definition cacheTTL :: time where
  "cacheTTL = 365 * 24 * Hour"

text \<open>
  Modelled from the spec: the struct \<^verbatim>\<open>fuseops.InodeAttributes\<close> is declared outside
  the files at hand. The fields are the ones \<^verbatim>\<open>memfs.go\<close> assigns (\<^verbatim>\<open>Nlink\<close>,
  \<^verbatim>\<open>Mode\<close>, the four times, \<^verbatim>\<open>Uid\<close>, \<^verbatim>\<open>Gid\<close>) and the size of the spec's data model.
\<close>

record InodeAttributes =
  Size :: nat
  Nlink :: "64 word"
  Mode :: FileMode
  Atime :: time
  Mtime :: time
  Ctime :: time
  Crtime :: time
  Uid :: "32 word"
  Gid :: "32 word"

text \<open>The zero value of the struct, which a Go composite literal starts from.\<close>

definition zeroAttributes :: InodeAttributes where
  "zeroAttributes =
     \<lparr>Size = 0, Nlink = 0, Mode = 0, Atime = 0, Mtime = 0, Ctime = 0, Crtime = 0,
      Uid = 0, Gid = 0\<rparr>"

datatype DirentType = DT_Directory | DT_File | DT_Link

text \<open>
  Modelled from the spec: a directory entry is a name, a child ID and a type
  (\<^verbatim>\<open>fuseutil.Dirent\<close> is declared outside the files at hand).
\<close>

record Dirent =
  Inode :: InodeID
  Name :: string
  Type :: DirentType

text \<open>The response entry \<^verbatim>\<open>fuseops.ChildInodeEntry\<close>, with the fields the code fills.\<close>

record ChildInodeEntry =
  Child :: InodeID
  Attributes :: InodeAttributes
  AttributesExpiration :: time
  EntryExpiration :: time

definition zeroEntry :: ChildInodeEntry where
  "zeroEntry =
     \<lparr>Child = 0, Attributes = zeroAttributes, AttributesExpiration = 0,
      EntryExpiration = 0\<rparr>"

datatype error = ENOENT | EEXIST | ENOTEMPTY | EOF

datatype failure = Panic string | Deadlock

subsection \<open>Inodes\<close>

text \<open>
  Modelled from the spec: the type \<^verbatim>\<open>inode\<close> and its methods live in a file that is
  not at hand. \<^verbatim>\<open>memfs.go\<close> reads and writes the fields \<^verbatim>\<open>attrs\<close> and \<^verbatim>\<open>target\<close>;
  the spec gives an inode directory entries and a byte buffer as well.
\<close>

record inode =
  attrs :: InodeAttributes
  entries :: "Dirent list"
  contents :: "byte list"
  target :: string

text \<open>
  Modelled from the spec: \<^verbatim>\<open>newInode\<close> "creates a new Inode with the given initial
  attributes". \<^verbatim>\<open>memfs.go\<close> hands it the clock and the attributes only.
\<close>

definition newInode :: "time \<Rightarrow> InodeAttributes \<Rightarrow> inode" where
  "newInode clk a = \<lparr>attrs = a, entries = [], contents = [], target = []\<rparr>"

text \<open>
  Modelled from the spec: the kind predicates. The kind of an inode is carried by the
  type bits of its mode ("mode bits including type"), the only thing \<^verbatim>\<open>NewMemFS\<close>,
  \<^verbatim>\<open>MkDir\<close> and \<^verbatim>\<open>CreateSymlink\<close> tell \<^verbatim>\<open>newInode\<close> about the kind.
\<close>

definition isDir :: "inode \<Rightarrow> bool" where
  "isDir i = (Mode (attrs i) AND ModeDir \<noteq> 0)"

definition isSymlink :: "inode \<Rightarrow> bool" where
  "isSymlink i = (Mode (attrs i) AND ModeSymlink \<noteq> 0)"

definition isFile :: "inode \<Rightarrow> bool" where
  "isFile i = (\<not> (isDir i \<or> isSymlink i))"

text \<open>
  Modelled from the spec: \<^verbatim>\<open>lookup(name)\<close> is an exact-match lookup; it answers with
  the first entry of that name in insertion order.
\<close>

definition LookUpChild :: "inode \<Rightarrow> string \<Rightarrow> InodeID option" where
  "LookUpChild i name = map_option Inode (find (\<lambda>e. Name e = name) (entries i))"

text \<open>Modelled from the spec: \<^verbatim>\<open>add(id, name, type)\<close> "appends an entry".\<close>

definition AddChild :: "inode \<Rightarrow> InodeID \<Rightarrow> string \<Rightarrow> DirentType \<Rightarrow> inode" where
  "AddChild i iid name dt = i\<lparr>entries := entries i @ [\<lparr>Inode = iid, Name = name, Type = dt\<rparr>]\<rparr>"

text \<open>
  Modelled from the spec: \<^verbatim>\<open>remove(name)\<close> "deletes the entry" and touches nothing
  else; the entry deleted is the one \<^verbatim>\<open>lookup\<close> finds.
\<close>

fun removeEntry :: "string \<Rightarrow> Dirent list \<Rightarrow> Dirent list" where
  "removeEntry name [] = []"
| "removeEntry name (e # es) = (if Name e = name then es else e # removeEntry name es)"

definition RemoveChild :: "inode \<Rightarrow> string \<Rightarrow> inode" where
  "RemoveChild i name = i\<lparr>entries := removeEntry name (entries i)\<rparr>"

text \<open>Modelled from the spec: \<^verbatim>\<open>len()\<close> is the entry count.\<close>

definition Len :: "inode \<Rightarrow> nat" where
  "Len i = length (entries i)"

text \<open>
  Modelled from the spec: \<^verbatim>\<open>read_at(buffer, offset)\<close> copies the overlap of
  \<open>[offset, offset + len(buffer))\<close> and \<open>[0, size)\<close> into the buffer, returns the number
  of bytes copied, and signals end-of-data when part of the requested range lies at or
  beyond the current size. The result is the buffer, the count and the signal.
\<close>

definition ReadAt :: "inode \<Rightarrow> byte list \<Rightarrow> nat \<Rightarrow> byte list \<times> nat \<times> error option" where
  "ReadAt i p off =
     (let avail = take (length p) (drop off (contents i));
          n = length avail
      in (avail @ drop n p, n,
          if length (contents i) < off + length p then Some EOF else None))"

text \<open>
  Modelled from the spec: \<^verbatim>\<open>write_at(data, offset)\<close> always writes the full length of
  the data; the buffer grows to \<open>offset + len(data)\<close> when that exceeds the current size,
  and the part of the gap the data does not cover is filled with zero bytes. The spec
  names no failure, so the error is always nil.
\<close>

definition WriteAt :: "inode \<Rightarrow> byte list \<Rightarrow> nat \<Rightarrow> inode \<times> nat \<times> error option" where
  "WriteAt i p off =
     (let grown = contents i @ replicate (off + length p - length (contents i)) 0
      in (i\<lparr>contents := take off grown @ p @ drop (off + length p) grown\<rparr>,
          length p, None))"

text \<open>
  Modelled from the spec: \<^verbatim>\<open>resize(new_size)\<close> truncates or grows with zero bytes to
  exactly the new size.
\<close>

definition resize :: "byte list \<Rightarrow> nat \<Rightarrow> byte list" where
  "resize bs n = take n bs @ replicate (n - length bs) 0"

text \<open>
  Modelled from the spec: \<^verbatim>\<open>set_attributes(size?, mode?, mtime?)\<close> updates only the
  fields provided, always refreshes ctime, and forwards a size given for a file to the
  resize of its content.
\<close>

definition SetAttributes ::
  "time \<Rightarrow> inode \<Rightarrow> nat option \<Rightarrow> FileMode option \<Rightarrow> time option \<Rightarrow> inode" where
  "SetAttributes clk i sz mode mtime =
     (let i1 = (case sz of None \<Rightarrow> i
                | Some s \<Rightarrow>
                    (if isFile i
                     then i\<lparr>attrs := (attrs i)\<lparr>Size := s\<rparr>, contents := resize (contents i) s\<rparr>
                     else i\<lparr>attrs := (attrs i)\<lparr>Size := s\<rparr>\<rparr>));
          i2 = (case mode of None \<Rightarrow> i1 | Some m \<Rightarrow> i1\<lparr>attrs := (attrs i1)\<lparr>Mode := m\<rparr>\<rparr>);
          i3 = (case mtime of None \<Rightarrow> i2 | Some t \<Rightarrow> i2\<lparr>attrs := (attrs i2)\<lparr>Mtime := t\<rparr>\<rparr>)
      in i3\<lparr>attrs := (attrs i3)\<lparr>Ctime := clk\<rparr>\<rparr>)"

subsection \<open>The file system and its helpers\<close>

text \<open>
  The struct \<^verbatim>\<open>memFS\<close>. The field \<open>clock\<close> is the reading \<^verbatim>\<open>fs.clock.Now()\<close> gives
  while an operation runs. The table lock \<^verbatim>\<open>mu\<close> serialises the operations, so each
  one is a function of the state.
\<close>

record memFS =
  clock :: time
  inodes :: "inode option list"
  freeInodes :: "InodeID list"

definition NewMemFS :: "32 word \<Rightarrow> 32 word \<Rightarrow> time \<Rightarrow> memFS" where
  "NewMemFS uid gid clk =
     (let rootAttrs = zeroAttributes\<lparr>Mode := 448 OR ModeDir, Uid := uid, Gid := gid\<rparr>
      in \<lparr>clock = clk,
          inodes = (replicate (RootInodeID + 1) None)[RootInodeID := Some (newInode clk rootAttrs)],
          freeInodes = []\<rparr>)"

text \<open>
  \<^verbatim>\<open>getInodeForModifyingOrDie\<close> and \<^verbatim>\<open>getInodeForReadingOrDie\<close>: index the table
  (a Go index out of range panics), panic on nil, then take the lock of the inode. The
  argument \<open>held\<close> lists the inodes whose locks the running operation holds already;
  the lock is not reentrant, so asking for one of those never returns.
\<close>

definition getInodeForModifyingOrDie :: "memFS \<Rightarrow> InodeID list \<Rightarrow> InodeID \<Rightarrow> failure + inode" where
  "getInodeForModifyingOrDie fs held iid =
     (if length (inodes fs) \<le> iid then Inl (Panic ''index out of range'')
      else case inodes fs ! iid of
             None \<Rightarrow> Inl (Panic ''Unknown inode'')
           | Some i \<Rightarrow> if iid \<in> set held then Inl Deadlock else Inr i)"

definition getInodeForReadingOrDie :: "memFS \<Rightarrow> InodeID list \<Rightarrow> InodeID \<Rightarrow> failure + inode" where
  "getInodeForReadingOrDie fs held iid =
     (if length (inodes fs) \<le> iid then Inl (Panic ''index out of range'')
      else case inodes fs ! iid of
             None \<Rightarrow> Inl (Panic ''Unknown inode'')
           | Some i \<Rightarrow> if iid \<in> set held then Inl Deadlock else Inr i)"

text \<open>
  \<^verbatim>\<open>allocateInode\<close>: the last ID of the free list if there is one, else a new slot at
  the end of the table. The result is the ID, the new inode and the file system.
\<close>

definition allocateInode :: "memFS \<Rightarrow> InodeAttributes \<Rightarrow> failure + (InodeID \<times> inode \<times> memFS)" where
  "allocateInode fs a =
     (let ino = newInode (clock fs) a;
          numFree = length (freeInodes fs)
      in if numFree \<noteq> 0
         then (let iid = freeInodes fs ! (numFree - 1);
                   fs1 = fs\<lparr>freeInodes := take (numFree - 1) (freeInodes fs)\<rparr>
               in if length (inodes fs1) \<le> iid then Inl (Panic ''index out of range'')
                  else Inr (iid, ino, fs1\<lparr>inodes := (inodes fs1)[iid := Some ino]\<rparr>))
         else Inr (length (inodes fs), ino, fs\<lparr>inodes := inodes fs @ [Some ino]\<rparr>))"

definition deallocateInode :: "memFS \<Rightarrow> InodeID \<Rightarrow> failure + memFS" where
  "deallocateInode fs iid =
     (let fs1 = fs\<lparr>freeInodes := freeInodes fs @ [iid]\<rparr>
      in if length (inodes fs1) \<le> iid then Inl (Panic ''index out of range'')
         else Inr (fs1\<lparr>inodes := (inodes fs1)[iid := None]\<rparr>))"








text \<open>Every ID on the free list indexes the table.\<close>

definition freeWithin :: "memFS \<Rightarrow> bool" where
  "freeWithin fs = list_all (\<lambda>i. i < length (inodes fs)) (freeInodes fs)"

subsection \<open>The operations of the file system\<close>

text \<open>
  Each operation takes the fields of its op struct as arguments and returns what it
  writes back: the file system, the response, and the error handed to
  \<^verbatim>\<open>fuseutil.RespondToOp\<close>. The response entry comes in as \<open>entry\<close>, the state of
  \<^verbatim>\<open>op.Entry\<close> before the call.
\<close>

definition LookUpInode ::
  "memFS \<Rightarrow> InodeID \<Rightarrow> string \<Rightarrow> ChildInodeEntry \<Rightarrow> failure + (ChildInodeEntry \<times> error option)" where
  "LookUpInode fs parent name entry =
     (case getInodeForReadingOrDie fs [] parent of
        Inl f \<Rightarrow> Inl f
      | Inr ino \<Rightarrow>
          (case LookUpChild ino name of
             None \<Rightarrow> Inr (entry, Some ENOENT)
           | Some childID \<Rightarrow>
               (case getInodeForReadingOrDie fs [parent] childID of
                  Inl f \<Rightarrow> Inl f
                | Inr child \<Rightarrow>
                    (let e1 = entry\<lparr>Child := childID\<rparr>;
                         e2 = e1\<lparr>Attributes := attrs child\<rparr>;
                         e3 = e2\<lparr>AttributesExpiration := clock fs + cacheTTL\<rparr>;
                         e4 = e3\<lparr>EntryExpiration := EntryExpiration e3\<rparr>
                     in Inr (e4, None)))))"

definition GetInodeAttributes :: "memFS \<Rightarrow> InodeID \<Rightarrow> failure + (InodeAttributes \<times> time)" where
  "GetInodeAttributes fs iid =
     (case getInodeForReadingOrDie fs [] iid of
        Inl f \<Rightarrow> Inl f
      | Inr ino \<Rightarrow> Inr (attrs ino, clock fs + cacheTTL))"

definition SetInodeAttributes ::
  "memFS \<Rightarrow> InodeID \<Rightarrow> nat option \<Rightarrow> FileMode option \<Rightarrow> time option \<Rightarrow>
     failure + (memFS \<times> InodeAttributes \<times> time)" where
  "SetInodeAttributes fs iid sz mode mtime =
     (case getInodeForModifyingOrDie fs [] iid of
        Inl f \<Rightarrow> Inl f
      | Inr ino \<Rightarrow>
          (let ino1 = SetAttributes (clock fs) ino sz mode mtime
           in Inr (fs\<lparr>inodes := (inodes fs)[iid := Some ino1]\<rparr>, attrs ino1,
                   clock fs + cacheTTL)))"

text \<open>
  The three create operations. \<^verbatim>\<open>parent\<close> is a pointer taken before
  \<^verbatim>\<open>allocateInode\<close> runs: should the free list hand out the parent's own slot, the
  table then holds the child there and the entry is added to an inode the table no
  longer reaches.
\<close>

definition MkDir ::
  "memFS \<Rightarrow> InodeID \<Rightarrow> string \<Rightarrow> FileMode \<Rightarrow> 32 word \<Rightarrow> 32 word \<Rightarrow> ChildInodeEntry \<Rightarrow>
     failure + (memFS \<times> ChildInodeEntry \<times> error option)" where
  "MkDir fs parent name mode uid gid entry =
     (case getInodeForModifyingOrDie fs [] parent of
        Inl f \<Rightarrow> Inl f
      | Inr p \<Rightarrow>
          (let childAttrs = zeroAttributes\<lparr>Nlink := 1, Mode := mode, Uid := uid, Gid := gid\<rparr>
           in case allocateInode fs childAttrs of
                Inl f \<Rightarrow> Inl f
              | Inr (childID, child, fs1) \<Rightarrow>
                  (let p1 = AddChild p childID name DT_Directory;
                       fs2 = (if childID = parent then fs1
                              else fs1\<lparr>inodes := (inodes fs1)[parent := Some p1]\<rparr>);
                       e1 = entry\<lparr>Child := childID\<rparr>;
                       e2 = e1\<lparr>Attributes := attrs child\<rparr>;
                       e3 = e2\<lparr>AttributesExpiration := clock fs + cacheTTL\<rparr>;
                       e4 = e3\<lparr>EntryExpiration := EntryExpiration e3\<rparr>
                   in Inr (fs2, e4, None))))"

definition CreateFile ::
  "memFS \<Rightarrow> InodeID \<Rightarrow> string \<Rightarrow> FileMode \<Rightarrow> 32 word \<Rightarrow> 32 word \<Rightarrow> ChildInodeEntry \<Rightarrow>
     failure + (memFS \<times> ChildInodeEntry \<times> error option)" where
  "CreateFile fs parent name mode uid gid entry =
     (case getInodeForModifyingOrDie fs [] parent of
        Inl f \<Rightarrow> Inl f
      | Inr p \<Rightarrow>
          (case LookUpChild p name of
             Some existing \<Rightarrow> Inr (fs, entry, Some EEXIST)
           | None \<Rightarrow>
               (let now = clock fs;
                    childAttrs = zeroAttributes\<lparr>Nlink := 1, Mode := mode, Atime := now,
                                   Mtime := now, Ctime := now, Crtime := now,
                                   Uid := uid, Gid := gid\<rparr>
                in case allocateInode fs childAttrs of
                     Inl f \<Rightarrow> Inl f
                   | Inr (childID, child, fs1) \<Rightarrow>
                       (let p1 = AddChild p childID name DT_File;
                            fs2 = (if childID = parent then fs1
                                   else fs1\<lparr>inodes := (inodes fs1)[parent := Some p1]\<rparr>);
                            e1 = entry\<lparr>Child := childID\<rparr>;
                            e2 = e1\<lparr>Attributes := attrs child\<rparr>;
                            e3 = e2\<lparr>AttributesExpiration := clock fs + cacheTTL\<rparr>;
                            e4 = e3\<lparr>EntryExpiration := EntryExpiration e3\<rparr>
                        in Inr (fs2, e4, None)))))"

definition CreateSymlink ::
  "memFS \<Rightarrow> InodeID \<Rightarrow> string \<Rightarrow> string \<Rightarrow> 32 word \<Rightarrow> 32 word \<Rightarrow> ChildInodeEntry \<Rightarrow>
     failure + (memFS \<times> ChildInodeEntry \<times> error option)" where
  "CreateSymlink fs parent name tgt uid gid entry =
     (case getInodeForModifyingOrDie fs [] parent of
        Inl f \<Rightarrow> Inl f
      | Inr p \<Rightarrow>
          (let now = clock fs;
               childAttrs = zeroAttributes\<lparr>Nlink := 1, Mode := 292 OR ModeSymlink, Atime := now,
                              Mtime := now, Ctime := now, Crtime := now,
                              Uid := uid, Gid := gid\<rparr>
           in case allocateInode fs childAttrs of
                Inl f \<Rightarrow> Inl f
              | Inr (childID, child0, fs0) \<Rightarrow>
                  (let child = child0\<lparr>target := tgt\<rparr>;
                       fs1 = fs0\<lparr>inodes := (inodes fs0)[childID := Some child]\<rparr>;
                       p1 = AddChild p childID name DT_Link;
                       fs2 = (if childID = parent then fs1
                              else fs1\<lparr>inodes := (inodes fs1)[parent := Some p1]\<rparr>);
                       e1 = entry\<lparr>Child := childID\<rparr>;
                       e2 = e1\<lparr>Attributes := attrs child\<rparr>;
                       e3 = e2\<lparr>AttributesExpiration := clock fs + cacheTTL\<rparr>;
                       e4 = e3\<lparr>EntryExpiration := EntryExpiration e3\<rparr>
                   in Inr (fs2, e4, None))))"

text \<open>
  The two remove operations. The child is fetched while the lock of the parent is held,
  and \<^verbatim>\<open>child.attrs.Nlink--\<close> is a subtraction on an unsigned machine integer.
\<close>

definition RmDir :: "memFS \<Rightarrow> InodeID \<Rightarrow> string \<Rightarrow> failure + (memFS \<times> error option)" where
  "RmDir fs parent name =
     (case getInodeForModifyingOrDie fs [] parent of
        Inl f \<Rightarrow> Inl f
      | Inr p \<Rightarrow>
          (case LookUpChild p name of
             None \<Rightarrow> Inr (fs, Some ENOENT)
           | Some childID \<Rightarrow>
               (case getInodeForModifyingOrDie fs [parent] childID of
                  Inl f \<Rightarrow> Inl f
                | Inr child \<Rightarrow>
                    if Len child \<noteq> 0 then Inr (fs, Some ENOTEMPTY)
                    else (let p1 = RemoveChild p name;
                              fs1 = fs\<lparr>inodes := (inodes fs)[parent := Some p1]\<rparr>;
                              child1 = child\<lparr>attrs := (attrs child)\<lparr>Nlink := Nlink (attrs child) - 1\<rparr>\<rparr>
                          in Inr (fs1\<lparr>inodes := (inodes fs1)[childID := Some child1]\<rparr>, None)))))"

definition Unlink :: "memFS \<Rightarrow> InodeID \<Rightarrow> string \<Rightarrow> failure + (memFS \<times> error option)" where
  "Unlink fs parent name =
     (case getInodeForModifyingOrDie fs [] parent of
        Inl f \<Rightarrow> Inl f
      | Inr p \<Rightarrow>
          (case LookUpChild p name of
             None \<Rightarrow> Inr (fs, Some ENOENT)
           | Some childID \<Rightarrow>
               (case getInodeForModifyingOrDie fs [parent] childID of
                  Inl f \<Rightarrow> Inl f
                | Inr child \<Rightarrow>
                    (let p1 = RemoveChild p name;
                         fs1 = fs\<lparr>inodes := (inodes fs)[parent := Some p1]\<rparr>;
                         child1 = child\<lparr>attrs := (attrs child)\<lparr>Nlink := Nlink (attrs child) - 1\<rparr>\<rparr>
                     in Inr (fs1\<lparr>inodes := (inodes fs1)[childID := Some child1]\<rparr>, None)))))"

text \<open>
  The file system \<^verbatim>\<open>Unlink\<close> and \<^verbatim>\<open>RmDir\<close> leave behind when they get to the end:
  the entry is gone from the parent and the link count of the child is one less.
\<close>

definition unlinked :: "memFS \<Rightarrow> InodeID \<Rightarrow> inode \<Rightarrow> string \<Rightarrow> InodeID \<Rightarrow> inode \<Rightarrow> memFS" where
  "unlinked fs parent p name childID child =
     fs\<lparr>inodes := (inodes fs)[parent := Some (RemoveChild p name),
          childID := Some (child\<lparr>attrs := (attrs child)\<lparr>Nlink := Nlink (attrs child) - 1\<rparr>\<rparr>)]\<rparr>"


definition OpenDir :: "memFS \<Rightarrow> InodeID \<Rightarrow> failure + unit" where
  "OpenDir fs iid =
     (case getInodeForReadingOrDie fs [] iid of
        Inl f \<Rightarrow> Inl f
      | Inr ino \<Rightarrow> if \<not> isDir ino then Inl (Panic ''Found non-dir.'') else Inr ())"

definition OpenFile :: "memFS \<Rightarrow> InodeID \<Rightarrow> failure + unit" where
  "OpenFile fs iid =
     (case getInodeForReadingOrDie fs [] iid of
        Inl f \<Rightarrow> Inl f
      | Inr ino \<Rightarrow> if \<not> isFile ino then Inl (Panic ''Found non-file.'') else Inr ())"

text \<open>
  \<^verbatim>\<open>ReadFile\<close>: a buffer of \<^verbatim>\<open>op.Size\<close> zero bytes is handed to \<^verbatim>\<open>ReadAt\<close> and cut
  to the count it returns; an error equal to \<^verbatim>\<open>io.EOF\<close> is replaced by nil.
\<close>

definition ReadFile :: "memFS \<Rightarrow> InodeID \<Rightarrow> nat \<Rightarrow> nat \<Rightarrow> failure + (byte list \<times> error option)" where
  "ReadFile fs iid off sz =
     (case getInodeForReadingOrDie fs [] iid of
        Inl f \<Rightarrow> Inl f
      | Inr ino \<Rightarrow>
          (case ReadAt ino (replicate sz 0) off of
             (buf, n, err) \<Rightarrow>
               Inr (take n buf, if err = Some EOF then None else err)))"

definition WriteFile :: "memFS \<Rightarrow> InodeID \<Rightarrow> byte list \<Rightarrow> nat \<Rightarrow> failure + (memFS \<times> error option)" where
  "WriteFile fs iid bs off =
     (case getInodeForModifyingOrDie fs [] iid of
        Inl f \<Rightarrow> Inl f
      | Inr ino \<Rightarrow>
          (case WriteAt ino bs off of
             (ino1, n, err) \<Rightarrow> Inr (fs\<lparr>inodes := (inodes fs)[iid := Some ino1]\<rparr>, err)))"

definition ReadSymlink :: "memFS \<Rightarrow> InodeID \<Rightarrow> failure + string" where
  "ReadSymlink fs iid =
     (case getInodeForReadingOrDie fs [] iid of
        Inl f \<Rightarrow> Inl f
      | Inr ino \<Rightarrow> Inr (target ino))"

subsection \<open>Sequences of calls\<close>

text \<open>
  A call is one operation of the file system together with its arguments, one of the
  two table helpers called directly, or the clock moving on between operations. The
  operations that fill a response entry start from its zero value.
\<close>

datatype call =
    AllocateInodeCall InodeAttributes
  | DeallocateInodeCall InodeID
  | AdvanceClock time
  | LookUpInodeCall InodeID string
  | GetInodeAttributesCall InodeID
  | SetInodeAttributesCall InodeID "nat option" "FileMode option" "time option"
  | MkDirCall InodeID string FileMode "32 word" "32 word"
  | CreateFileCall InodeID string FileMode "32 word" "32 word"
  | CreateSymlinkCall InodeID string string "32 word" "32 word"
  | RmDirCall InodeID string
  | UnlinkCall InodeID string
  | OpenDirCall InodeID
  | OpenFileCall InodeID
  | ReadFileCall InodeID nat nat
  | WriteFileCall InodeID "byte list" nat
  | ReadSymlinkCall InodeID

fun step :: "memFS \<Rightarrow> call \<Rightarrow> failure + memFS" where
  "step fs (AllocateInodeCall a) =
     (case allocateInode fs a of Inl f \<Rightarrow> Inl f | Inr (iid, ino, fs1) \<Rightarrow> Inr fs1)"
| "step fs (DeallocateInodeCall iid) = deallocateInode fs iid"
| "step fs (AdvanceClock t) = Inr (fs\<lparr>clock := t\<rparr>)"
| "step fs (LookUpInodeCall parent name) =
     (case LookUpInode fs parent name zeroEntry of Inl f \<Rightarrow> Inl f | Inr r \<Rightarrow> Inr fs)"
| "step fs (GetInodeAttributesCall iid) =
     (case GetInodeAttributes fs iid of Inl f \<Rightarrow> Inl f | Inr r \<Rightarrow> Inr fs)"
| "step fs (SetInodeAttributesCall iid sz mode mtime) =
     (case SetInodeAttributes fs iid sz mode mtime of
        Inl f \<Rightarrow> Inl f | Inr (fs1, a, t) \<Rightarrow> Inr fs1)"
| "step fs (MkDirCall parent name mode uid gid) =
     (case MkDir fs parent name mode uid gid zeroEntry of
        Inl f \<Rightarrow> Inl f | Inr (fs1, e, err) \<Rightarrow> Inr fs1)"
| "step fs (CreateFileCall parent name mode uid gid) =
     (case CreateFile fs parent name mode uid gid zeroEntry of
        Inl f \<Rightarrow> Inl f | Inr (fs1, e, err) \<Rightarrow> Inr fs1)"
| "step fs (CreateSymlinkCall parent name tgt uid gid) =
     (case CreateSymlink fs parent name tgt uid gid zeroEntry of
        Inl f \<Rightarrow> Inl f | Inr (fs1, e, err) \<Rightarrow> Inr fs1)"
| "step fs (RmDirCall parent name) =
     (case RmDir fs parent name of Inl f \<Rightarrow> Inl f | Inr (fs1, err) \<Rightarrow> Inr fs1)"
| "step fs (UnlinkCall parent name) =
     (case Unlink fs parent name of Inl f \<Rightarrow> Inl f | Inr (fs1, err) \<Rightarrow> Inr fs1)"
| "step fs (OpenDirCall iid) =
     (case OpenDir fs iid of Inl f \<Rightarrow> Inl f | Inr u \<Rightarrow> Inr fs)"
| "step fs (OpenFileCall iid) =
     (case OpenFile fs iid of Inl f \<Rightarrow> Inl f | Inr u \<Rightarrow> Inr fs)"
| "step fs (ReadFileCall iid off sz) =
     (case ReadFile fs iid off sz of Inl f \<Rightarrow> Inl f | Inr r \<Rightarrow> Inr fs)"
| "step fs (WriteFileCall iid bs off) =
     (case WriteFile fs iid bs off of Inl f \<Rightarrow> Inl f | Inr (fs1, err) \<Rightarrow> Inr fs1)"
| "step fs (ReadSymlinkCall iid) =
     (case ReadSymlink fs iid of Inl f \<Rightarrow> Inl f | Inr r \<Rightarrow> Inr fs)"

fun run :: "memFS \<Rightarrow> call list \<Rightarrow> failure + memFS" where
  "run fs [] = Inr fs"
| "run fs (c # cs) = (case step fs c of Inl f \<Rightarrow> Inl f | Inr fs1 \<Rightarrow> run fs1 cs)"




subsection \<open>Example states\<close>

text \<open>A table of eight slots, the root and six children, with nothing free.\<close>

definition fsEight :: memFS where
  "fsEight =
     \<lparr>clock = 0,
      inodes = [None, Some (newInode 0 (zeroAttributes\<lparr>Mode := 448 OR ModeDir\<rparr>)),
                Some (newInode 0 zeroAttributes), Some (newInode 0 zeroAttributes),
                Some (newInode 0 zeroAttributes), Some (newInode 0 zeroAttributes),
                Some (newInode 0 zeroAttributes), Some (newInode 0 zeroAttributes)],
      freeInodes = []\<rparr>"


definition exampleTableCalls :: "call list" where
  "exampleTableCalls =
     [AllocateInodeCall zeroAttributes, AllocateInodeCall zeroAttributes,
      DeallocateInodeCall 2, DeallocateInodeCall 3, AllocateInodeCall zeroAttributes]"

text \<open>
  The file system after \<^verbatim>\<open>MkDir\<close> of \<open>foo\<close> in the root of a new file system, with the
  clock at 1000.
\<close>

definition fsFoo :: memFS where
  "fsFoo =
     \<lparr>clock = 1000,
      inodes =
        [None,
         Some \<lparr>attrs = zeroAttributes\<lparr>Mode := 448 OR ModeDir\<rparr>,
               entries = [\<lparr>Inode = 2, Name = ''foo'', Type = DT_Directory\<rparr>],
               contents = [], target = []\<rparr>,
         Some (newInode 1000 (zeroAttributes\<lparr>Nlink := 1, Mode := 493 OR ModeDir\<rparr>))],
      freeInodes = []\<rparr>"





section \<open>Reuse of inode IDs\<close>

lemma allocateInode_reuse:
  assumes "freeInodes fs \<noteq> []" and "last (freeInodes fs) < length (inodes fs)"
  shows "allocateInode fs a =
           Inr (last (freeInodes fs), newInode (clock fs) a,
                fs\<lparr>freeInodes := butlast (freeInodes fs),
                   inodes := (inodes fs)[last (freeInodes fs) := Some (newInode (clock fs) a)]\<rparr>)"
  using assms by (simp add: allocateInode_def Let_def last_conv_nth butlast_conv_take)

lemma allocateInode_fresh:
  assumes "freeInodes fs = []"
  shows "allocateInode fs a =
           Inr (length (inodes fs), newInode (clock fs) a,
                fs\<lparr>inodes := inodes fs @ [Some (newInode (clock fs) a)]\<rparr>)"
  using assms by (simp add: allocateInode_def Let_def)

lemma deallocateInode_ok:
  assumes "iid < length (inodes fs)"
  shows "deallocateInode fs iid =
           Inr (fs\<lparr>freeInodes := freeInodes fs @ [iid], inodes := (inodes fs)[iid := None]\<rparr>)"
  using assms by (simp add: deallocateInode_def Let_def)

lemma freeWithin_I:
  assumes "freeWithin fs" and "length (inodes fs) \<le> length (inodes fs1)"
    and "set (freeInodes fs1) \<subseteq> set (freeInodes fs)"
  shows "freeWithin fs1"
  unfolding freeWithin_def list_all_iff
proof
  fix i
  assume "i \<in> set (freeInodes fs1)"
  with assms(3) have "i \<in> set (freeInodes fs)" by blast
  with assms(1) have "i < length (inodes fs)"
    by (simp add: freeWithin_def list_all_iff)
  with assms(2) show "i < length (inodes fs1)" by simp
qed

lemma allocateInode_grows:
  "allocateInode fs a = Inr (i, ino, fs1) \<Longrightarrow>
     length (inodes fs) \<le> length (inodes fs1) \<and> set (freeInodes fs1) \<subseteq> set (freeInodes fs)"
  by (auto simp: allocateInode_def Let_def split: if_splits dest: in_set_takeD)

lemma MkDir_grows:
  "MkDir fs parent name mode uid gid e = Inr (fs1, e1, err) \<Longrightarrow>
     length (inodes fs) \<le> length (inodes fs1) \<and> set (freeInodes fs1) \<subseteq> set (freeInodes fs)"
  by (auto simp: MkDir_def Let_def split: sum.splits if_splits dest!: allocateInode_grows)

lemma CreateFile_grows:
  "CreateFile fs parent name mode uid gid e = Inr (fs1, e1, err) \<Longrightarrow>
     length (inodes fs) \<le> length (inodes fs1) \<and> set (freeInodes fs1) \<subseteq> set (freeInodes fs)"
  by (auto simp: CreateFile_def Let_def split: sum.splits option.splits if_splits
      dest!: allocateInode_grows)

lemma CreateSymlink_grows:
  "CreateSymlink fs parent name tgt uid gid e = Inr (fs1, e1, err) \<Longrightarrow>
     length (inodes fs) \<le> length (inodes fs1) \<and> set (freeInodes fs1) \<subseteq> set (freeInodes fs)"
  by (auto simp: CreateSymlink_def Let_def split: sum.splits if_splits
      dest!: allocateInode_grows)

lemma freeWithin_step:
  assumes "freeWithin fs" and "step fs c = Inr fs1"
  shows "freeWithin fs1"
proof (cases c)
  case (AllocateInodeCall a)
  with assms show ?thesis
    by (auto split: sum.splits dest!: allocateInode_grows intro: freeWithin_I)
next
  case (DeallocateInodeCall j)
  with assms show ?thesis
    by (auto simp: deallocateInode_def Let_def freeWithin_def split: if_splits)
next
  case (AdvanceClock t)
  with assms show ?thesis by (auto simp: freeWithin_def)
next
  case (SetInodeAttributesCall j sz mode mtime)
  with assms show ?thesis
    by (auto simp: SetInodeAttributes_def Let_def freeWithin_def split: sum.splits)
next
  case (MkDirCall parent name mode uid gid)
  with assms show ?thesis
    by (auto split: sum.splits dest!: MkDir_grows intro: freeWithin_I)
next
  case (CreateFileCall parent name mode uid gid)
  with assms show ?thesis
    by (auto split: sum.splits dest!: CreateFile_grows intro: freeWithin_I)
next
  case (CreateSymlinkCall parent name tgt uid gid)
  with assms show ?thesis
    by (auto split: sum.splits dest!: CreateSymlink_grows intro: freeWithin_I)
next
  case (RmDirCall parent name)
  with assms show ?thesis
    by (auto simp: RmDir_def Let_def freeWithin_def split: sum.splits option.splits if_splits)
next
  case (UnlinkCall parent name)
  with assms show ?thesis
    by (auto simp: Unlink_def Let_def freeWithin_def split: sum.splits option.splits)
next
  case (WriteFileCall j bs off)
  with assms show ?thesis
    by (auto simp: WriteFile_def freeWithin_def split: sum.splits prod.splits)
qed (use assms in \<open>auto split: sum.splits\<close>)

lemma freeWithin_run:
  assumes "freeWithin fs" and "run fs cs = Inr fs1"
  shows "freeWithin fs1"
  using assms
proof (induction cs arbitrary: fs)
  case Nil
  then show ?case by simp
next
  case (Cons c cs)
  from Cons.prems(2) obtain fs2 where s: "step fs c = Inr fs2" and r: "run fs2 cs = Inr fs1"
    by (auto split: sum.splits)
  from Cons.prems(1) s have "freeWithin fs2" by (rule freeWithin_step)
  with r show ?case by (simp add: Cons.IH)
qed

lemma freeWithin_NewMemFS: "freeWithin (NewMemFS uid gid clk)"
  by (simp add: freeWithin_def NewMemFS_def Let_def)


lemma freeWithin_last:
  "freeWithin fs \<Longrightarrow> freeInodes fs \<noteq> [] \<Longrightarrow> last (freeInodes fs) < length (inodes fs)"
  by (simp add: freeWithin_def list_all_iff)

text \<open>
  Claim C2. \<^verbatim>\<open>allocateInode\<close> reuses the IDs of the free list last in, first out:
  with a non-empty free list it returns the ID freed most recently (the last of the
  list) and removes it, with an empty one it returns the length of the table and
  appends a slot. The reused ID indexes the table in every state that calls starting
  from \<^verbatim>\<open>NewMemFS\<close> reach, so the assignment to its slot does not panic there. After
  \<open>x\<close> and then \<open>y\<close> are deallocated, the next allocation returns \<open>y\<close> and the one
  after returns \<open>x\<close>.
\<close>

theorem allocateInode_LIFO:
  "(freeInodes fs \<noteq> [] \<and> last (freeInodes fs) < length (inodes fs) \<longrightarrow>
      allocateInode fs a =
        Inr (last (freeInodes fs), newInode (clock fs) a,
             fs\<lparr>freeInodes := butlast (freeInodes fs),
                inodes := (inodes fs)[last (freeInodes fs) := Some (newInode (clock fs) a)]\<rparr>)) \<and>
   (run (NewMemFS uid gid clk) cs = Inr fs \<and> freeInodes fs \<noteq> [] \<longrightarrow>
      last (freeInodes fs) < length (inodes fs)) \<and>
   (freeInodes fs = [] \<longrightarrow>
      allocateInode fs a =
        Inr (length (inodes fs), newInode (clock fs) a,
             fs\<lparr>inodes := inodes fs @ [Some (newInode (clock fs) a)]\<rparr>)) \<and>
   (x < length (inodes fs) \<and> y < length (inodes fs) \<longrightarrow>
      (\<exists>fs1 fs2 fs3 fs4.
         deallocateInode fs x = Inr fs1 \<and> deallocateInode fs1 y = Inr fs2 \<and>
         allocateInode fs2 a = Inr (y, newInode (clock fs) a, fs3) \<and>
         allocateInode fs3 b = Inr (x, newInode (clock fs) b, fs4) \<and>
         freeInodes fs4 = freeInodes fs))"
proof (intro conjI impI)
  assume "freeInodes fs \<noteq> [] \<and> last (freeInodes fs) < length (inodes fs)"
  then show "allocateInode fs a =
        Inr (last (freeInodes fs), newInode (clock fs) a,
             fs\<lparr>freeInodes := butlast (freeInodes fs),
                inodes := (inodes fs)[last (freeInodes fs) := Some (newInode (clock fs) a)]\<rparr>)"
    by (simp add: allocateInode_reuse)
next
  assume "run (NewMemFS uid gid clk) cs = Inr fs \<and> freeInodes fs \<noteq> []"
  then show "last (freeInodes fs) < length (inodes fs)"
    using freeWithin_run [OF freeWithin_NewMemFS] freeWithin_last by blast
next
  assume "freeInodes fs = []"
  then show "allocateInode fs a =
        Inr (length (inodes fs), newInode (clock fs) a,
             fs\<lparr>inodes := inodes fs @ [Some (newInode (clock fs) a)]\<rparr>)"
    by (rule allocateInode_fresh)
next
  assume xy: "x < length (inodes fs) \<and> y < length (inodes fs)"
  define fs1 where "fs1 = fs\<lparr>freeInodes := freeInodes fs @ [x], inodes := (inodes fs)[x := None]\<rparr>"
  define fs2 where "fs2 = fs1\<lparr>freeInodes := freeInodes fs1 @ [y], inodes := (inodes fs1)[y := None]\<rparr>"
  define fs3 where "fs3 = fs2\<lparr>freeInodes := butlast (freeInodes fs2),
                inodes := (inodes fs2)[last (freeInodes fs2) := Some (newInode (clock fs2) a)]\<rparr>"
  define fs4 where "fs4 = fs3\<lparr>freeInodes := butlast (freeInodes fs3),
                inodes := (inodes fs3)[last (freeInodes fs3) := Some (newInode (clock fs3) b)]\<rparr>"
  have d1: "deallocateInode fs x = Inr fs1"
    using xy by (simp add: deallocateInode_ok fs1_def)
  have d2: "deallocateInode fs1 y = Inr fs2"
    using xy by (simp add: deallocateInode_ok fs1_def fs2_def)
  have a3: "allocateInode fs2 a = Inr (y, newInode (clock fs) a, fs3)"
    using xy allocateInode_reuse [of fs2 a] by (simp add: fs1_def fs2_def fs3_def)
  have a4: "allocateInode fs3 b = Inr (x, newInode (clock fs) b, fs4)"
    using xy allocateInode_reuse [of fs3 b]
    by (simp add: fs1_def fs2_def fs3_def fs4_def butlast_append)
  have "freeInodes fs4 = freeInodes fs"
    by (simp add: fs1_def fs2_def fs3_def fs4_def butlast_append)
  with d1 d2 a3 a4 show "\<exists>fs1 fs2 fs3 fs4.
         deallocateInode fs x = Inr fs1 \<and> deallocateInode fs1 y = Inr fs2 \<and>
         allocateInode fs2 a = Inr (y, newInode (clock fs) a, fs3) \<and>
         allocateInode fs3 b = Inr (x, newInode (clock fs) b, fs4) \<and>
         freeInodes fs4 = freeInodes fs"
    by blast
qed

text \<open>
  The example of the claim: in a table of eight slots, IDs 5 and then 7 are deallocated;
  the next allocation returns 7 and the one after returns 5.
\<close>

theorem allocateInode_LIFO_witness:
  "(5::nat) < length (inodes fsEight) \<and> (7::nat) < length (inodes fsEight) \<and>
   freeInodes fsEight = [] \<and>
   allocateInode fsEight zeroAttributes =
     Inr (8, newInode 0 zeroAttributes,
          fsEight\<lparr>inodes := inodes fsEight @ [Some (newInode 0 zeroAttributes)]\<rparr>) \<and>
   (\<exists>fs1 fs2 fs3 fs4.
      deallocateInode fsEight 5 = Inr fs1 \<and> deallocateInode fs1 7 = Inr fs2 \<and>
      freeInodes fs2 = [5, 7] \<and> last (freeInodes fs2) < length (inodes fs2) \<and>
      allocateInode fs2 zeroAttributes = Inr (7, newInode 0 zeroAttributes, fs3) \<and>
      allocateInode fs3 zeroAttributes = Inr (5, newInode 0 zeroAttributes, fs4) \<and>
      freeInodes fs4 = []) \<and>
   (\<exists>fs. run (NewMemFS 0 0 0) exampleTableCalls = Inr fs \<and> freeInodes fs = [2] \<and>
      last (freeInodes fs) < length (inodes fs))"
proof -
  have "\<exists>fs. run (NewMemFS 0 0 0) exampleTableCalls = Inr fs \<and> freeInodes fs = [2]"
    by (simp add: exampleTableCalls_def NewMemFS_def RootInodeID_def Let_def
        allocateInode_def deallocateInode_def)
  then obtain fs where r: "run (NewMemFS 0 0 0) exampleTableCalls = Inr fs"
    and f: "freeInodes fs = [2]"
    by blast
  from allocateInode_LIFO [of fs _ 0 0 0 exampleTableCalls] r f
  have "last (freeInodes fs) < length (inodes fs)"
    by simp
  with r f allocateInode_LIFO [of fsEight zeroAttributes _ _ _ _ 5 7 zeroAttributes]
  show ?thesis
    by (simp add: fsEight_def deallocateInode_def Let_def)
qed

section \<open>The invariants of the table\<close>


subsection \<open>What keeps the table consistent\<close>









lemma getInodeForModifyingOrDie_Inr:
  "getInodeForModifyingOrDie fs held j = Inr p \<Longrightarrow>
     j < length (inodes fs) \<and> inodes fs ! j = Some p \<and> j \<notin> set held"
  by (auto simp: getInodeForModifyingOrDie_def split: if_splits option.splits)

lemma getInodeForReadingOrDie_Inr:
  "getInodeForReadingOrDie fs held j = Inr p \<Longrightarrow>
     j < length (inodes fs) \<and> inodes fs ! j = Some p \<and> j \<notin> set held"
  by (auto simp: getInodeForReadingOrDie_def split: if_splits option.splits)


























subsection \<open>The invariants along a sequence of calls\<close>




section \<open>Creating under a name that exists\<close>

text \<open>
  Claim C3. Of the three create operations only \<^verbatim>\<open>CreateFile\<close> looks the name up
  first. In the file system whose root already holds \<open>foo\<close>, \<^verbatim>\<open>MkDir\<close> and
  \<^verbatim>\<open>CreateSymlink\<close> of \<open>foo\<close> return no error, allocate inode 3 and add a second entry
  named \<open>foo\<close>; \<^verbatim>\<open>CreateFile\<close> of \<open>foo\<close> returns \<open>EEXIST\<close> and leaves the file system as
  it was.
\<close>

theorem MkDir_existing_name:
  "MkDir (NewMemFS 0 0 1000) RootInodeID ''foo'' (493 OR ModeDir) 0 0 zeroEntry =
     Inr (fsFoo,
          \<lparr>Child = 2, Attributes = zeroAttributes\<lparr>Nlink := 1, Mode := 493 OR ModeDir\<rparr>,
           AttributesExpiration = 1000 + cacheTTL, EntryExpiration = 0\<rparr>, None) \<and>
   LookUpChild (the (inodes fsFoo ! RootInodeID)) ''foo'' = Some 2 \<and>
   MkDir fsFoo RootInodeID ''foo'' (493 OR ModeDir) 0 0 zeroEntry =
     Inr (fsFoo\<lparr>inodes :=
            [None,
             Some \<lparr>attrs = zeroAttributes\<lparr>Mode := 448 OR ModeDir\<rparr>,
                   entries = [\<lparr>Inode = 2, Name = ''foo'', Type = DT_Directory\<rparr>,
                              \<lparr>Inode = 3, Name = ''foo'', Type = DT_Directory\<rparr>],
                   contents = [], target = []\<rparr>,
             Some (newInode 1000 (zeroAttributes\<lparr>Nlink := 1, Mode := 493 OR ModeDir\<rparr>)),
             Some (newInode 1000 (zeroAttributes\<lparr>Nlink := 1, Mode := 493 OR ModeDir\<rparr>))]\<rparr>,
          \<lparr>Child = 3, Attributes = zeroAttributes\<lparr>Nlink := 1, Mode := 493 OR ModeDir\<rparr>,
           AttributesExpiration = 1000 + cacheTTL, EntryExpiration = 0\<rparr>, None) \<and>
   CreateSymlink fsFoo RootInodeID ''foo'' ''elsewhere'' 0 0 zeroEntry =
     Inr (fsFoo\<lparr>inodes :=
            [None,
             Some \<lparr>attrs = zeroAttributes\<lparr>Mode := 448 OR ModeDir\<rparr>,
                   entries = [\<lparr>Inode = 2, Name = ''foo'', Type = DT_Directory\<rparr>,
                              \<lparr>Inode = 3, Name = ''foo'', Type = DT_Link\<rparr>],
                   contents = [], target = []\<rparr>,
             Some (newInode 1000 (zeroAttributes\<lparr>Nlink := 1, Mode := 493 OR ModeDir\<rparr>)),
             Some ((newInode 1000
                     (zeroAttributes\<lparr>Nlink := 1, Mode := 292 OR ModeSymlink, Atime := 1000,
                        Mtime := 1000, Ctime := 1000, Crtime := 1000\<rparr>))
                   \<lparr>target := ''elsewhere''\<rparr>)]\<rparr>,
          \<lparr>Child = 3,
           Attributes = zeroAttributes\<lparr>Nlink := 1, Mode := 292 OR ModeSymlink, Atime := 1000,
                          Mtime := 1000, Ctime := 1000, Crtime := 1000\<rparr>,
           AttributesExpiration = 1000 + cacheTTL, EntryExpiration = 0\<rparr>, None) \<and>
   CreateFile fsFoo RootInodeID ''foo'' 420 0 0 zeroEntry = Inr (fsFoo, zeroEntry, Some EEXIST)"
  by (simp add: fsFoo_def MkDir_def CreateSymlink_def CreateFile_def NewMemFS_def
      RootInodeID_def Let_def allocateInode_def getInodeForModifyingOrDie_def newInode_def
      AddChild_def LookUpChild_def zeroAttributes_def zeroEntry_def)

section \<open>Looking a name up\<close>

text \<open>
  Claim C9. \<^verbatim>\<open>LookUpInode\<close> of a name the parent holds returns the child, its
  attributes and an attribute expiration a year after the clock, but the line
  \<^verbatim>\<open>op.Entry.EntryExpiration = op.Entry.EntryExpiration\<close> assigns the field to itself:
  the entry expiration stays at the zero value it came in with. For a name the parent
  does not hold it returns \<open>ENOENT\<close> and leaves the entry as it was.
\<close>

theorem LookUpInode_EntryExpiration:
  "LookUpInode fsFoo RootInodeID ''foo'' zeroEntry =
     Inr (\<lparr>Child = 2, Attributes = zeroAttributes\<lparr>Nlink := 1, Mode := 493 OR ModeDir\<rparr>,
           AttributesExpiration = 1000 + 365 * 24 * Hour, EntryExpiration = 0\<rparr>, None) \<and>
   LookUpInode fsFoo RootInodeID ''bar'' zeroEntry = Inr (zeroEntry, Some ENOENT)"
  by (simp add: fsFoo_def LookUpInode_def RootInodeID_def Let_def
      getInodeForReadingOrDie_def newInode_def LookUpChild_def zeroAttributes_def zeroEntry_def
      cacheTTL_def)

section \<open>What the invariant check lets through\<close>


section \<open>The root inode\<close>



section \<open>Removing an entry\<close>

lemma find_removeEntry:
  "find (\<lambda>e. Name e = name) es = Some e \<Longrightarrow>
     \<exists>es1 es2. es = es1 @ e # es2 \<and> Name e = name \<and> name \<notin> Name ` set es1 \<and>
       removeEntry name es = es1 @ es2"
proof (induction es)
  case Nil
  then show ?case by simp
next
  case (Cons x es)
  show ?case
  proof (cases "Name x = name")
    case True
    with Cons.prems have "x = e" by simp
    with True have "x # es = [] @ e # es \<and> Name e = name \<and> name \<notin> Name ` set [] \<and>
        removeEntry name (x # es) = [] @ es"
      by simp
    then show ?thesis by blast
  next
    case False
    with Cons.prems have "find (\<lambda>e. Name e = name) es = Some e" by simp
    from Cons.IH [OF this] obtain es1 es2 where
      "es = es1 @ e # es2" "Name e = name" "name \<notin> Name ` set es1"
      "removeEntry name es = es1 @ es2"
      by blast
    with False have "x # es = (x # es1) @ e # es2 \<and> Name e = name \<and>
        name \<notin> Name ` set (x # es1) \<and> removeEntry name (x # es) = (x # es1) @ es2"
      by auto
    then show ?thesis by blast
  qed
qed

lemma LookUpChild_RemoveChild:
  assumes "LookUpChild p name = Some c"
  shows "\<exists>es1 e es2. entries p = es1 @ e # es2 \<and> Name e = name \<and> Inode e = c \<and>
           name \<notin> Name ` set es1 \<and> entries (RemoveChild p name) = es1 @ es2"
proof -
  from assms obtain e where f: "find (\<lambda>e. Name e = name) (entries p) = Some e" and "Inode e = c"
    by (auto simp: LookUpChild_def)
  with find_removeEntry [OF f] show ?thesis
    by (auto simp: RemoveChild_def)
qed

lemma getInodeForModifyingOrDie_eq:
  "j < length (inodes fs) \<Longrightarrow> inodes fs ! j = Some p \<Longrightarrow> j \<notin> set held \<Longrightarrow>
     getInodeForModifyingOrDie fs held j = Inr p"
  by (simp add: getInodeForModifyingOrDie_def)


lemma Unlink_found:
  assumes "parent < length (inodes fs)" and "inodes fs ! parent = Some p"
    and "LookUpChild p name = Some childID"
    and "childID < length (inodes fs)" and "inodes fs ! childID = Some child"
    and "childID \<noteq> parent"
  shows "Unlink fs parent name = Inr (unlinked fs parent p name childID child, None)"
  using assms
  by (simp add: Unlink_def getInodeForModifyingOrDie_eq Let_def unlinked_def)

lemma RmDir_found:
  assumes "parent < length (inodes fs)" and "inodes fs ! parent = Some p"
    and "LookUpChild p name = Some childID"
    and "childID < length (inodes fs)" and "inodes fs ! childID = Some child"
    and "childID \<noteq> parent"
  shows "RmDir fs parent name =
           (if Len child \<noteq> 0 then Inr (fs, Some ENOTEMPTY)
            else Inr (unlinked fs parent p name childID child, None))"
  using assms
  by (simp add: RmDir_def getInodeForModifyingOrDie_eq Let_def unlinked_def)

lemma Unlink_success:
  assumes "Unlink fs parent name = Inr (fs1, None)"
  shows "\<exists>p childID child. parent < length (inodes fs) \<and> inodes fs ! parent = Some p \<and>
           LookUpChild p name = Some childID \<and> childID < length (inodes fs) \<and>
           inodes fs ! childID = Some child \<and> childID \<noteq> parent \<and>
           fs1 = unlinked fs parent p name childID child"
  using assms
  by (auto simp: Unlink_def Let_def unlinked_def split: sum.splits option.splits
      dest!: getInodeForModifyingOrDie_Inr)

lemma RmDir_success:
  assumes "RmDir fs parent name = Inr (fs1, None)"
  shows "\<exists>p childID child. parent < length (inodes fs) \<and> inodes fs ! parent = Some p \<and>
           LookUpChild p name = Some childID \<and> childID < length (inodes fs) \<and>
           inodes fs ! childID = Some child \<and> childID \<noteq> parent \<and> Len child = 0 \<and>
           fs1 = unlinked fs parent p name childID child"
  using assms
  by (auto simp: RmDir_def Let_def unlinked_def split: sum.splits option.splits if_splits
      dest!: getInodeForModifyingOrDie_Inr)

lemma unlinked_effect:
  assumes "parent < length (inodes fs)" and "inodes fs ! parent = Some p"
    and "LookUpChild p name = Some childID"
    and "childID < length (inodes fs)" and "inodes fs ! childID = Some child"
    and "childID \<noteq> parent"
    and "fs1 = unlinked fs parent p name childID child"
  shows "\<exists>p1 child1 es1 e es2.
           inodes fs1 ! parent = Some p1 \<and> inodes fs1 ! childID = Some child1 \<and>
           entries p = es1 @ e # es2 \<and> Name e = name \<and> Inode e = childID \<and>
           name \<notin> Name ` set es1 \<and> entries p1 = es1 @ es2 \<and>
           Nlink (attrs child1) = Nlink (attrs child) - 1 \<and>
           length (inodes fs1) = length (inodes fs) \<and> freeInodes fs1 = freeInodes fs \<and>
           (\<forall>j<length (inodes fs). inodes fs ! j \<noteq> None \<longrightarrow> inodes fs1 ! j \<noteq> None)"
proof -
  from LookUpChild_RemoveChild [OF assms(3)] obtain es1 e es2 where
    "entries p = es1 @ e # es2" "Name e = name" "Inode e = childID" "name \<notin> Name ` set es1"
    "entries (RemoveChild p name) = es1 @ es2"
    by blast
  with assms show ?thesis
    by (auto simp: unlinked_def nth_list_update)
qed


text \<open>
  Claim C4. Every \<^verbatim>\<open>Unlink\<close> and every \<^verbatim>\<open>RmDir\<close> that returns without an error
  removes the entry of that name from the parent (the first one, the one the lookup
  found) and takes one off the link count of the child, in the arithmetic of the
  unsigned machine integer; the table keeps its length, the free list is untouched and
  every occupied slot, the child's among them, stays occupied. Whenever the parent
  holds the name and the child's slot is occupied, \<^verbatim>\<open>Unlink\<close> does return without an
  error, and so does \<^verbatim>\<open>RmDir\<close> when the child has no entries.
\<close>

theorem remove_keeps_slot:
  "(Unlink fs parent name = Inr (fs1, None) \<or> RmDir fs parent name = Inr (fs1, None) \<longrightarrow>
      (\<exists>p childID child p1 child1 es1 e es2.
         inodes fs ! parent = Some p \<and> LookUpChild p name = Some childID \<and>
         inodes fs ! childID = Some child \<and>
         inodes fs1 ! parent = Some p1 \<and> inodes fs1 ! childID = Some child1 \<and>
         entries p = es1 @ e # es2 \<and> Name e = name \<and> Inode e = childID \<and>
         name \<notin> Name ` set es1 \<and> entries p1 = es1 @ es2 \<and>
         Nlink (attrs child1) = Nlink (attrs child) - 1 \<and>
         length (inodes fs1) = length (inodes fs) \<and> freeInodes fs1 = freeInodes fs \<and>
         (\<forall>j<length (inodes fs). inodes fs ! j \<noteq> None \<longrightarrow> inodes fs1 ! j \<noteq> None))) \<and>
   (parent < length (inodes fs) \<and> inodes fs ! parent = Some p \<and>
    LookUpChild p name = Some childID \<and> childID < length (inodes fs) \<and>
    inodes fs ! childID = Some child \<and> childID \<noteq> parent \<longrightarrow>
      Unlink fs parent name = Inr (unlinked fs parent p name childID child, None) \<and>
      (Len child = 0 \<longrightarrow>
         RmDir fs parent name = Inr (unlinked fs parent p name childID child, None)))"
proof (intro conjI impI)
  assume "Unlink fs parent name = Inr (fs1, None) \<or> RmDir fs parent name = Inr (fs1, None)"
  then obtain p childID child where
    pre: "parent < length (inodes fs)" "inodes fs ! parent = Some p"
      "LookUpChild p name = Some childID" "childID < length (inodes fs)"
      "inodes fs ! childID = Some child" "childID \<noteq> parent"
      and fs1: "fs1 = unlinked fs parent p name childID child"
    using Unlink_success [of fs parent name fs1] RmDir_success [of fs parent name fs1]
    by blast
  from unlinked_effect [OF pre fs1] pre
  show "\<exists>p childID child p1 child1 es1 e es2.
         inodes fs ! parent = Some p \<and> LookUpChild p name = Some childID \<and>
         inodes fs ! childID = Some child \<and>
         inodes fs1 ! parent = Some p1 \<and> inodes fs1 ! childID = Some child1 \<and>
         entries p = es1 @ e # es2 \<and> Name e = name \<and> Inode e = childID \<and>
         name \<notin> Name ` set es1 \<and> entries p1 = es1 @ es2 \<and>
         Nlink (attrs child1) = Nlink (attrs child) - 1 \<and>
         length (inodes fs1) = length (inodes fs) \<and> freeInodes fs1 = freeInodes fs \<and>
         (\<forall>j<length (inodes fs). inodes fs ! j \<noteq> None \<longrightarrow> inodes fs1 ! j \<noteq> None)"
    by blast
next
  assume pre: "parent < length (inodes fs) \<and> inodes fs ! parent = Some p \<and>
    LookUpChild p name = Some childID \<and> childID < length (inodes fs) \<and>
    inodes fs ! childID = Some child \<and> childID \<noteq> parent"
  then show "Unlink fs parent name = Inr (unlinked fs parent p name childID child, None)"
    by (simp add: Unlink_found)
  assume "Len child = 0"
  with pre show "RmDir fs parent name = Inr (unlinked fs parent p name childID child, None)"
    by (simp add: RmDir_found)
qed

text \<open>Unlinking and removing the directory \<open>foo\<close> from the root that holds it.\<close>

theorem remove_keeps_slot_witness:
  "\<exists>p child fs1 child1.
     RootInodeID < length (inodes fsFoo) \<and> inodes fsFoo ! RootInodeID = Some p \<and>
     LookUpChild p ''foo'' = Some 2 \<and> 2 < length (inodes fsFoo) \<and>
     inodes fsFoo ! 2 = Some child \<and> 2 \<noteq> RootInodeID \<and> Len child = 0 \<and>
     Nlink (attrs child) = 1 \<and>
     Unlink fsFoo RootInodeID ''foo'' = Inr (fs1, None) \<and>
     RmDir fsFoo RootInodeID ''foo'' = Inr (fs1, None) \<and>
     LookUpChild (the (inodes fs1 ! RootInodeID)) ''foo'' = None \<and>
     inodes fs1 ! 2 = Some child1 \<and> Nlink (attrs child1) = 0 \<and>
     length (inodes fs1) = 3 \<and> freeInodes fs1 = []"
proof -
  let ?p = "\<lparr>attrs = zeroAttributes\<lparr>Mode := 448 OR ModeDir\<rparr>,
             entries = [\<lparr>Inode = 2, Name = ''foo'', Type = DT_Directory\<rparr>],
             contents = [], target = []\<rparr>"
  let ?c = "newInode 1000 (zeroAttributes\<lparr>Nlink := 1, Mode := 493 OR ModeDir\<rparr>)"
  let ?fs1 = "unlinked fsFoo RootInodeID ?p ''foo'' 2 ?c"
  have pre: "RootInodeID < length (inodes fsFoo) \<and> inodes fsFoo ! RootInodeID = Some ?p \<and>
     LookUpChild ?p ''foo'' = Some 2 \<and> 2 < length (inodes fsFoo) \<and>
     inodes fsFoo ! 2 = Some ?c \<and> 2 \<noteq> RootInodeID"
    by (simp add: fsFoo_def RootInodeID_def LookUpChild_def)
  have len: "Len ?c = 0" "Nlink (attrs ?c) = 1"
    by (simp_all add: Len_def newInode_def zeroAttributes_def)
  have eff: "LookUpChild (the (inodes ?fs1 ! RootInodeID)) ''foo'' = None \<and>
     inodes ?fs1 ! 2 = Some (?c\<lparr>attrs := (attrs ?c)\<lparr>Nlink := Nlink (attrs ?c) - 1\<rparr>\<rparr>) \<and>
     Nlink (attrs (?c\<lparr>attrs := (attrs ?c)\<lparr>Nlink := Nlink (attrs ?c) - 1\<rparr>\<rparr>)) = 0 \<and>
     length (inodes ?fs1) = 3 \<and> freeInodes ?fs1 = []"
    by (simp add: unlinked_def fsFoo_def RootInodeID_def LookUpChild_def RemoveChild_def
        newInode_def zeroAttributes_def)
  from remove_keeps_slot [of fsFoo RootInodeID "''foo''" ?fs1 ?p 2 ?c] pre len
  have "Unlink fsFoo RootInodeID ''foo'' = Inr (?fs1, None)"
    and "RmDir fsFoo RootInodeID ''foo'' = Inr (?fs1, None)"
    by blast+
  with pre len eff show ?thesis by blast
qed




section \<open>Reading and writing a file\<close>
















end
